theory Spec2Isabelle
  imports Complex_Main "HOL-Library.Sublist"
begin

section \<open>The guideline chatbot of \<^verbatim>\<open>app.py\<close>\<close>

text \<open>
  The module is one Flask handler (\<^verbatim>\<open>chat\<close>) around three external services: a sentence
  embedder and a vector index (\<^verbatim>\<open>retrieve_context\<close>), a generative model, and a
  spreadsheet used as audit log (\<^verbatim>\<open>log_to_google_sheet\<close>).

  Conventions of the embedding:
  \<^item> a Python \<^verbatim>\<open>str\<close> is a \<^typ>\<open>string\<close>; the two non-ASCII literals of the source are written
    as their UTF-8 bytes;
  \<^item> an exception is a value \<open>Exn c d\<close>: its class and what \<^verbatim>\<open>str(e)\<close> gives. Only
    subclasses of \<^verbatim>\<open>Exception\<close> are modelled, which is what both \<^verbatim>\<open>except Exception\<close> clauses
    of the source catch;
  \<^item> a computation that calls external services returns the list of calls it made, in order,
    and either the exception it raised (\<open>Inl\<close>) or its value (\<open>Inr\<close>);
  \<^item> the external services are parameters: a record of functions from the arguments of a call
    to its outcome, one record per request;
  \<^item> metadata values are strings (what the f-string shows of them), embedding vectors are
    lists of reals that the module only passes on, and \<^verbatim>\<open>print\<close> does not fail;
  \<^item> the route accepts GET and POST; the handler only tests for POST.
\<close>

subsection \<open>Strings and exceptions\<close>

definition NL :: string where
  "NL = [CHR 0x0A]"

text \<open>U+26A0 U+FE0F (warning sign) and U+274C (cross mark), in UTF-8.\<close>

definition WARNING_SIGN :: string where
  "WARNING_SIGN = [CHR 0xE2, CHR 0x9A, CHR 0xA0, CHR 0xEF, CHR 0xB8, CHR 0x8F]"

definition CROSS_MARK :: string where
  "CROSS_MARK = [CHR 0xE2, CHR 0x9D, CHR 0x8C]"

datatype exn_class = KeyError | IndexError | ValueError | BadRequestKeyError | ServiceError

datatype exn = Exn exn_class string

fun exn_str :: "exn \<Rightarrow> string" where
  "exn_str (Exn c d) = d"

text \<open>
  \<^verbatim>\<open>d[k]\<close> on a dict without the key \<open>k\<close> raises \<^verbatim>\<open>KeyError(k)\<close>, whose \<^verbatim>\<open>str\<close> is the
  \<^verbatim>\<open>repr\<close> of the key: the key in single quotes, for the plain keys of this module.
\<close>

definition key_error :: "string \<Rightarrow> exn" where
  "key_error k = Exn KeyError ([CHR 0x27] @ k @ [CHR 0x27])"

text \<open>Python's \<^verbatim>\<open>sep.join(pieces)\<close>.\<close>

fun join :: "string \<Rightarrow> string list \<Rightarrow> string" where
  "join sep [] = []"
| "join sep [x] = x"
| "join sep (x # y # ys) = x @ sep @ join sep (y # ys)"

subsection \<open>Data\<close>

text \<open>
  A match of the index query, asked with \<^verbatim>\<open>include_metadata=True\<close>: only the dict
  \<^verbatim>\<open>m['metadata']\<close> is read by the module.
\<close>

record match =
  match_id :: string
  score :: real
  metadata :: "string \<rightharpoonup> string"

text \<open>One entry of \<^verbatim>\<open>session["history"]\<close>: the dict \<^verbatim>\<open>{"query": ..., "response": ...}\<close>.\<close>

record turn =
  query :: string
  response :: string

text \<open>
  The Flask session, a dict in which the handler uses the keys \<^verbatim>\<open>"history"\<close> and
  \<^verbatim>\<open>"session_id"\<close>; \<open>None\<close> is an absent key.
\<close>

record session =
  history :: "turn list option"
  session_id :: "string option"

definition empty_session :: session where
  "empty_session = \<lparr>history = None, session_id = None\<rparr>"

definition turns :: "session \<Rightarrow> turn list" where
  "turns s = (case history s of None \<Rightarrow> [] | Some h \<Rightarrow> h)"

datatype http_method = GET | POST

record request =
  request_method :: http_method
  request_form :: "string \<rightharpoonup> string"

text \<open>
  What the template shows: one chat box per element of \<^verbatim>\<open>history\<close>, in iteration order,
  with \<^verbatim>\<open>loop.index\<close> (from 1), \<^verbatim>\<open>pair.query\<close> and \<^verbatim>\<open>pair.response\<close>. The markup around
  them is constant and is left out.
\<close>

record chat_box =
  loop_index :: nat
  you :: string
  bot :: string

type_synonym page = "chat_box list"

subsection \<open>External services and their calls\<close>

type_synonym creds = string
type_synonym client = string
type_synonym sheet = string

datatype effect =
    EmbedderEncode "string list"
  | IndexQuery "real list" int bool
  | GenerateContent string string
  | GspreadAuthorize creds
  | ClientOpen client string
  | AppendRow sheet "string list"
  | Print string

text \<open>
  \<^item> \<open>embedder_encode texts\<close>: \<^verbatim>\<open>embedder.encode(texts)\<close>, one vector per text;
  \<^item> \<open>index_query v k md\<close>: the \<^verbatim>\<open>"matches"\<close> of \<^verbatim>\<open>index.query(vector=v, top_k=k, include_metadata=md)\<close>;
  \<^item> \<open>generate_content name prompt\<close>: \<^verbatim>\<open>genai.GenerativeModel(name).generate_content(prompt).text\<close>;
  \<^item> \<open>uuid4\<close>: \<^verbatim>\<open>str(uuid.uuid4())\<close>; \<open>utcnow_isoformat\<close>: \<^verbatim>\<open>datetime.utcnow().isoformat()\<close>;
  \<^item> \<open>GOOGLE_CREDS_B64\<close>: the environment variable of that name;
  \<^item> \<open>from_service_account_info b scopes\<close>: base64 and UTF-8 decoding of \<open>b\<close>, \<^verbatim>\<open>json.loads\<close>
    and \<^verbatim>\<open>Credentials.from_service_account_info\<close>;
  \<^item> \<open>gspread_authorize\<close>, \<open>client_open\<close> (\<^verbatim>\<open>client.open(name).sheet1\<close>), \<open>sheet_append_row\<close>:
    the spreadsheet client.
\<close>

record services =
  embedder_encode :: "string list \<Rightarrow> exn + real list list"
  index_query :: "real list \<Rightarrow> int \<Rightarrow> bool \<Rightarrow> exn + match list"
  generate_content :: "string \<Rightarrow> string \<Rightarrow> exn + string"
  uuid4 :: string
  utcnow_isoformat :: string
  GOOGLE_CREDS_B64 :: "string option"
  from_service_account_info :: "string \<Rightarrow> string list \<Rightarrow> exn + creds"
  gspread_authorize :: "creds \<Rightarrow> exn + client"
  client_open :: "client \<Rightarrow> string \<Rightarrow> exn + sheet"
  sheet_append_row :: "sheet \<Rightarrow> string list \<Rightarrow> exn + unit"

type_synonym 'a io = "effect list \<times> (exn + 'a)"

definition io_return :: "'a \<Rightarrow> 'a io" where
  "io_return x = ([], Inr x)"

definition io_result :: "exn + 'a \<Rightarrow> 'a io" where
  "io_result r = ([], r)"

definition io_call :: "effect \<Rightarrow> exn + 'a \<Rightarrow> 'a io" where
  "io_call c r = ([c], r)"

definition io_bind :: "'a io \<Rightarrow> ('a \<Rightarrow> 'b io) \<Rightarrow> 'b io" where
  "io_bind m f =
     (case m of
        (t, Inl e) \<Rightarrow> (t, Inl e)
      | (t, Inr x) \<Rightarrow> (case f x of (t', r) \<Rightarrow> (t @ t', r)))"

text \<open>\<^verbatim>\<open>try: m except Exception as e: h(e)\<close>\<close>

definition io_try :: "'a io \<Rightarrow> (exn \<Rightarrow> 'a io) \<Rightarrow> 'a io" where
  "io_try m h =
     (case m of
        (t, Inl e) \<Rightarrow> (case h e of (t', r) \<Rightarrow> (t @ t', r))
      | (t, Inr x) \<Rightarrow> (t, Inr x))"

subsection \<open>Constants of the module\<close>

definition SPREADSHEET_NAME :: string where
  "SPREADSHEET_NAME = ''Iron-LLM logs''"

definition MODEL_NAME :: string where
  "MODEL_NAME = ''gemini-1.5-flash''"

definition SCOPES :: "string list" where
  "SCOPES = [''https://www.googleapis.com/auth/spreadsheets'',
             ''https://www.googleapis.com/auth/drive'']"

subsection \<open>\<^verbatim>\<open>get_google_credentials\<close> and \<^verbatim>\<open>log_to_google_sheet\<close>\<close>

definition get_google_credentials :: "services \<Rightarrow> exn + creds" where
  "get_google_credentials env =
     (case GOOGLE_CREDS_B64 env of
        None \<Rightarrow> Inl (Exn ValueError ''Missing GOOGLE_CREDS_B64 environment variable.'')
      | Some b \<Rightarrow>
          if b = [] then Inl (Exn ValueError ''Missing GOOGLE_CREDS_B64 environment variable.'')
          else from_service_account_info env b SCOPES)"

definition log_to_google_sheet :: "services \<Rightarrow> string \<Rightarrow> string \<Rightarrow> string \<Rightarrow> unit io" where
  "log_to_google_sheet env sid user_input bot_response =
     io_try
       (io_bind (io_result (get_google_credentials env)) (\<lambda>creds.
        io_bind (io_call (GspreadAuthorize creds) (gspread_authorize env creds)) (\<lambda>client.
        io_bind (io_call (ClientOpen client SPREADSHEET_NAME)
                   (client_open env client SPREADSHEET_NAME)) (\<lambda>sheet.
        let row = [sid, utcnow_isoformat env, user_input, bot_response]
        in io_call (AppendRow sheet row) (sheet_append_row env sheet row)))))
       (\<lambda>e. io_call (Print (CROSS_MARK @ '' Failed to log to Google Sheet: '' @ exn_str e))
               (Inr ()))"

subsection \<open>\<^verbatim>\<open>retrieve_context\<close>\<close>

text \<open>The formatted string of one match (line 112); \<^verbatim>\<open>['text']\<close> is evaluated first.\<close>

definition context_piece :: "match \<Rightarrow> exn + string" where
  "context_piece m =
     (case metadata m ''text'' of
        None \<Rightarrow> Inl (key_error ''text'')
      | Some t \<Rightarrow>
          Inr (t @ '' (source: ''
                 @ (case metadata m ''source'' of None \<Rightarrow> ''unknown'' | Some s \<Rightarrow> s)
                 @ '')''))"

text \<open>The list comprehension over \<^verbatim>\<open>results["matches"]\<close>: the first exception ends it.\<close>

fun context_pieces :: "match list \<Rightarrow> exn + string list" where
  "context_pieces [] = Inr []"
| "context_pieces (m # ms) =
     (case context_piece m of
        Inl e \<Rightarrow> Inl e
      | Inr p \<Rightarrow> (case context_pieces ms of Inl e \<Rightarrow> Inl e | Inr ps \<Rightarrow> Inr (p # ps)))"

text \<open>\<^verbatim>\<open>embedder.encode([formatted_query])[0]\<close>\<close>

definition first_row :: "real list list \<Rightarrow> exn + real list" where
  "first_row embs =
     (case embs of
        [] \<Rightarrow> Inl (Exn IndexError ''index 0 is out of bounds for axis 0 with size 0'')
      | v # _ \<Rightarrow> Inr v)"

definition retrieve_context :: "services \<Rightarrow> string \<Rightarrow> int \<Rightarrow> string io" where
  "retrieve_context env q top_k =
     (let formatted_query = ''query: '' @ q in
      io_bind (io_call (EmbedderEncode [formatted_query])
                 (embedder_encode env [formatted_query])) (\<lambda>embs.
      io_bind (io_result (first_row embs)) (\<lambda>q_emb.
      io_bind (io_call (IndexQuery q_emb top_k True) (index_query env q_emb top_k True)) (\<lambda>ms.
      io_bind (io_result (context_pieces ms)) (\<lambda>ps.
      io_return (join (NL @ NL) ps))))))"

subsection \<open>The handler \<^verbatim>\<open>chat\<close>\<close>

text \<open>The f-string of line 131.\<close>

definition compose_prompt :: "string \<Rightarrow> string \<Rightarrow> string" where
  "compose_prompt context q =
     ''Use this context to answer the question:'' @ NL @ NL @ context @ NL @ NL
       @ ''Question: '' @ q"

text \<open>Lines 129 to 134: the generation call and its \<^verbatim>\<open>except\<close> clause.\<close>

definition generate_response :: "services \<Rightarrow> string \<Rightarrow> string io" where
  "generate_response env prompt =
     io_try (io_call (GenerateContent MODEL_NAME prompt) (generate_content env MODEL_NAME prompt))
       (\<lambda>e. io_return (WARNING_SIGN @ '' Error generating response: '' @ exn_str e))"

text \<open>
  \<^verbatim>\<open>render_template_string(HTML_TEMPLATE, response=..., history=...)\<close>: the template loops
  over \<^verbatim>\<open>history\<close> and does not use \<^verbatim>\<open>response\<close>.
\<close>

fun chat_boxes :: "nat \<Rightarrow> turn list \<Rightarrow> chat_box list" where
  "chat_boxes i [] = []"
| "chat_boxes i (p # ps) =
     \<lparr>loop_index = i, you = query p, bot = response p\<rparr> # chat_boxes (Suc i) ps"

definition render_template_string :: "string option \<Rightarrow> turn list \<Rightarrow> page" where
  "render_template_string resp hist = chat_boxes 1 hist"

text \<open>
  Line 141: \<^verbatim>\<open>session["history"]\<close> is looked up, reversed and rendered.
\<close>

definition render_history :: "string option \<Rightarrow> session \<Rightarrow> exn + page" where
  "render_history resp s =
     (case history s of
        None \<Rightarrow> Inl (key_error ''history'')
      | Some h \<Rightarrow> Inr (render_template_string resp (rev h)))"

text \<open>Lines 120 to 122: history and session id are created when there is no history.\<close>

definition first_contact :: "services \<Rightarrow> session \<Rightarrow> session" where
  "first_contact env s0 =
     (if history s0 = None
      then s0\<lparr>history := Some [], session_id := Some (uuid4 env)\<rparr>
      else s0)"

text \<open>Line 136: \<^verbatim>\<open>session["history"].append(turn)\<close>.\<close>

definition history_append :: "session \<Rightarrow> turn \<Rightarrow> exn + session" where
  "history_append s t =
     (case history s of
        None \<Rightarrow> Inl (key_error ''history'')
      | Some h \<Rightarrow> Inr (s\<lparr>history := Some (h @ [t])\<rparr>))"

text \<open>Line 139, the argument \<^verbatim>\<open>session["session_id"]\<close>.\<close>

definition get_session_id :: "session \<Rightarrow> exn + string" where
  "get_session_id s =
     (case session_id s of None \<Rightarrow> Inl (key_error ''session_id'') | Some sid \<Rightarrow> Inr sid)"

text \<open>
  \<^verbatim>\<open>request.form["query"]\<close>: a missing field raises werkzeug's \<^verbatim>\<open>BadRequestKeyError\<close>.
\<close>

definition form_query :: "request \<Rightarrow> exn + string" where
  "form_query req =
     (case request_form req ''query'' of
        None \<Rightarrow> Inl (Exn BadRequestKeyError
                 (''400 Bad Request: The browser (or proxy) sent a request ''
                    @ ''that this server could not understand.''))
      | Some q \<Rightarrow> Inr q)"

text \<open>
  The handler takes the session the request came with and returns the session as the
  handler leaves it (also when it raises), the external calls made, and the exception that
  left the handler or the page.
\<close>

definition chat :: "services \<Rightarrow> request \<Rightarrow> session \<Rightarrow> session \<times> page io" where
  "chat env req s0 =
     (let s1 = first_contact env s0
      in case request_method req of
           GET \<Rightarrow> (s1, [], render_history None s1)
         | POST \<Rightarrow>
            (case form_query req of
               Inl e \<Rightarrow> (s1, [], Inl e)
             | Inr q \<Rightarrow>
            (case retrieve_context env q 20 of
               (t1, Inl e) \<Rightarrow> (s1, t1, Inl e)
             | (t1, Inr context) \<Rightarrow>
            (case generate_response env (compose_prompt context q) of
               (t2, Inl e) \<Rightarrow> (s1, t1 @ t2, Inl e)
             | (t2, Inr resp) \<Rightarrow>
            (case history_append s1 \<lparr>query = q, response = resp\<rparr> of
               Inl e \<Rightarrow> (s1, t1 @ t2, Inl e)
             | Inr s2 \<Rightarrow>
            (case get_session_id s2 of
               Inl e \<Rightarrow> (s2, t1 @ t2, Inl e)
             | Inr sid \<Rightarrow>
            (case log_to_google_sheet env sid q resp of
               (t3, Inl e) \<Rightarrow> (s2, t1 @ t2 @ t3, Inl e)
             | (t3, Inr u) \<Rightarrow> (s2, t1 @ t2 @ t3, render_history (Some resp) s2))))))))"

subsection \<open>Sequences of requests\<close>

text \<open>
  The requests of one browser, each with the services as they answer during that request;
  the session a request leaves is the session of the next one.
\<close>

fun run :: "(services \<times> request) list \<Rightarrow> session \<Rightarrow> session \<times> effect list" where
  "run [] s = (s, [])"
| "run ((env, req) # rs) s =
     (case chat env req s of
        (s', t, r) \<Rightarrow> (case run rs s' of (s'', t') \<Rightarrow> (s'', t @ t')))"

text \<open>The sessions that requests can produce, from the empty session of a first contact.\<close>

inductive reachable :: "session \<Rightarrow> bool" where
  reachable_empty: "reachable empty_session"
| reachable_chat: "reachable s \<Longrightarrow> reachable (fst (chat env req s))"

text \<open>The rows handed to \<^verbatim>\<open>sheet.append_row\<close> in a list of calls.\<close>

fun audit_rows :: "effect list \<Rightarrow> string list list" where
  "audit_rows [] = []"
| "audit_rows (AppendRow sh row # t) = row # audit_rows t"
| "audit_rows (c # t) = audit_rows t"

subsection \<open>A concrete scenario\<close>

definition demo_matches :: "match list" where
  "demo_matches =
     [\<lparr>match_id = ''v1'', score = 0.9,
        metadata = [''text'' \<mapsto> ''Lock all valves'', ''source'' \<mapsto> ''doc1'']\<rparr>,
      \<lparr>match_id = ''v2'', score = 0.8,
        metadata = [''text'' \<mapsto> ''Notify supervisor'', ''source'' \<mapsto> ''doc2'']\<rparr>]"

definition demo_match_no_source :: match where
  "demo_match_no_source =
     \<lparr>match_id = ''v3'', score = 0.7, metadata = [''text'' \<mapsto> ''Wear gloves'']\<rparr>"

definition demo_match_no_text :: match where
  "demo_match_no_text =
     \<lparr>match_id = ''v4'', score = 0.6, metadata = [''source'' \<mapsto> ''doc4'']\<rparr>"

definition demo_services :: services where
  "demo_services =
     \<lparr>embedder_encode = (\<lambda>texts. Inr (map (\<lambda>t. [0, 1]) texts)),
      index_query = (\<lambda>v k md. Inr demo_matches),
      generate_content = (\<lambda>name prompt. Inr ''Lock all valves, then notify the supervisor.''),
      uuid4 = ''6fa459ea-ee8a-4ca4-894e-db77e160355e'',
      utcnow_isoformat = ''2024-05-01T12:00:00'',
      GOOGLE_CREDS_B64 = Some ''e30='',
      from_service_account_info = (\<lambda>b scopes. Inr ''credentials''),
      gspread_authorize = (\<lambda>c. Inr ''client''),
      client_open = (\<lambda>c name. Inr ''sheet1''),
      sheet_append_row = (\<lambda>sh row. Inr ())\<rparr>"

definition demo_question :: string where
  "demo_question = ''What is the lockout procedure?''"

definition demo_post :: request where
  "demo_post = \<lparr>request_method = POST, request_form = [''query'' \<mapsto> demo_question]\<rparr>"

definition demo_get :: request where
  "demo_get = \<lparr>request_method = GET, request_form = Map.empty\<rparr>"

definition demo_session :: session where
  "demo_session =
     \<lparr>history = Some [\<lparr>query = ''Hello'', response = ''Hi''\<rparr>],
        session_id = Some ''6fa459ea-ee8a-4ca4-894e-db77e160355e''\<rparr>"

section \<open>Properties\<close>

subsection \<open>Auxiliary facts\<close>

lemma io_bind_Inl [simp]: "io_bind (t, Inl e) f = (t, Inl e)"
  by (simp add: io_bind_def)

lemma io_bind_Inr [simp]: "io_bind (t, Inr x) f = (t @ fst (f x), snd (f x))"
  by (simp add: io_bind_def split: prod.splits)

lemma io_try_Inl [simp]: "io_try (t, Inl e) h = (t @ fst (h e), snd (h e))"
  by (simp add: io_try_def split: prod.splits)

lemma io_try_Inr [simp]: "io_try (t, Inr x) h = (t, Inr x)"
  by (simp add: io_try_def)

lemma context_pieces_present:
  "\<forall>m\<in>set ms. metadata m ''text'' \<noteq> None \<Longrightarrow>
   context_pieces ms =
     Inr (map (\<lambda>m. the (metadata m ''text'') @ '' (source: ''
                 @ (case metadata m ''source'' of None \<Rightarrow> ''unknown'' | Some s \<Rightarrow> s) @ '')'') ms)"
  by (induction ms) (auto simp: context_piece_def)

lemma context_pieces_missing_text:
  "m \<in> set ms \<Longrightarrow> metadata m ''text'' = None \<Longrightarrow>
   context_pieces ms = Inl (key_error ''text'')"
proof (induction ms)
  case Nil
  then show ?case by simp
next
  case (Cons a ms)
  show ?case
  proof (cases "metadata a ''text''")
    case None
    then show ?thesis by (simp add: context_piece_def)
  next
    case (Some t)
    with Cons.prems have "m \<in> set ms" by auto
    with Cons have "context_pieces ms = Inl (key_error ''text'')" by simp
    with Some show ?thesis by (simp add: context_piece_def)
  qed
qed

lemma log_to_google_sheet_returns:
  "snd (log_to_google_sheet env sid q r) = Inr ()"
  by (simp add: log_to_google_sheet_def io_try_def io_bind_def io_call_def io_result_def Let_def
      split: prod.splits sum.splits)

lemma retrieve_context_ok:
  assumes "embedder_encode env [''query: '' @ q] = Inr (v # vs)"
      and "index_query env v k True = Inr ms"
  shows "retrieve_context env q k =
          ([EmbedderEncode [''query: '' @ q], IndexQuery v k True],
           case context_pieces ms of Inl e \<Rightarrow> Inl e | Inr ps \<Rightarrow> Inr (join [CHR 0x0A, CHR 0x0A] ps))"
  using assms
  by (simp add: retrieve_context_def io_call_def io_result_def io_return_def first_row_def NL_def
      split: sum.splits)


lemma generate_response_eq:
  "generate_response env p =
     ([GenerateContent MODEL_NAME p],
      Inr (case generate_content env MODEL_NAME p of
             Inl e \<Rightarrow> WARNING_SIGN @ '' Error generating response: '' @ exn_str e
           | Inr t \<Rightarrow> t))"
  by (simp add: generate_response_def io_call_def io_return_def split: sum.splits)

lemma chat_GET:
  "request_method req = GET \<Longrightarrow>
   chat env req s = (first_contact env s, [], Inr (chat_boxes 1 (rev (turns s))))"
  by (auto simp: chat_def Let_def first_contact_def render_history_def
      render_template_string_def turns_def split: option.splits)

lemma chat_no_query:
  "request_method req = POST \<Longrightarrow> request_form req ''query'' = None \<Longrightarrow>
   \<exists>e. chat env req s = (first_contact env s, [], Inl e)"
  by (simp add: chat_def Let_def form_query_def)

lemma chat_retrieval_fails:
  "request_method req = POST \<Longrightarrow> request_form req ''query'' = Some q \<Longrightarrow>
   retrieve_context env q 20 = (t1, Inl e) \<Longrightarrow>
   chat env req s = (first_contact env s, t1, Inl e)"
  by (simp add: chat_def Let_def form_query_def)

lemma chat_answers:
  assumes "request_method req = POST" and "request_form req ''query'' = Some q"
      and "retrieve_context env q 20 = (t1, Inr c)"
      and "history s = None \<or> session_id s = Some sid"
      and sid: "sid' = (if history s = None then uuid4 env else sid)"
      and r: "r = (case generate_content env MODEL_NAME (compose_prompt c q) of
             Inl e \<Rightarrow> WARNING_SIGN @ '' Error generating response: '' @ exn_str e
           | Inr t \<Rightarrow> t)"
  shows "chat env req s =
          (\<lparr>history = Some (turns s @ [\<lparr>query = q, response = r\<rparr>]), session_id = Some sid'\<rparr>,
           t1 @ [GenerateContent MODEL_NAME (compose_prompt c q)]
              @ fst (log_to_google_sheet env sid' q r),
           Inr (chat_boxes 1 (\<lparr>query = q, response = r\<rparr> # rev (turns s))))"
proof -
  obtain t3 where l: "log_to_google_sheet env sid' q r = (t3, Inr ())"
    using log_to_google_sheet_returns [of env sid' q r] by (cases "log_to_google_sheet env sid' q r") simp
  show ?thesis
  proof (cases "history s")
    case None
    with assms l show ?thesis
      by (simp add: chat_def Let_def first_contact_def form_query_def generate_response_eq
          history_append_def get_session_id_def render_history_def render_template_string_def
          turns_def)
  next
    case (Some h)
    with assms l show ?thesis
      by (cases s) (simp add: chat_def Let_def first_contact_def form_query_def
          generate_response_eq history_append_def get_session_id_def render_history_def
          render_template_string_def turns_def)
  qed
qed


lemma audit_rows_append: "audit_rows (t @ t') = audit_rows t @ audit_rows t'"
  by (induction t rule: audit_rows.induct) simp_all

lemma fst_io_bind:
  "fst (io_bind m f) = fst m @ (case snd m of Inl e \<Rightarrow> [] | Inr x \<Rightarrow> fst (f x))"
  by (cases m) (simp add: io_bind_def split: sum.splits prod.splits)

lemma fst_io_try:
  "fst (io_try m h) = fst m @ (case snd m of Inl e \<Rightarrow> fst (h e) | Inr x \<Rightarrow> [])"
  by (cases m) (simp add: io_try_def split: sum.splits prod.splits)

lemma audit_rows_retrieve_context: "audit_rows (fst (retrieve_context env q k)) = []"
  by (simp add: retrieve_context_def Let_def fst_io_bind audit_rows_append io_call_def
      io_result_def io_return_def split: sum.splits)

lemma audit_rows_log_to_google_sheet:
  "row \<in> set (audit_rows (fst (log_to_google_sheet env sid q r))) \<Longrightarrow>
   row = [sid, utcnow_isoformat env, q, r]"
  by (simp add: log_to_google_sheet_def Let_def fst_io_bind fst_io_try audit_rows_append
      io_call_def io_result_def split: sum.splits)

lemma first_contact_turns: "turns (first_contact env s) = turns s"
  by (simp add: first_contact_def turns_def)

lemma first_contact_history: "history (first_contact env s) \<noteq> None"
  by (simp add: first_contact_def)

lemma first_contact_session_id:
  "history s = None \<or> session_id s = Some sid \<Longrightarrow>
   session_id (first_contact env s) = Some (if history s = None then uuid4 env else sid)"
  by (auto simp: first_contact_def)

text \<open>Every outcome of one request.\<close>

lemma chat_cases:
  assumes ok: "history s = None \<or> session_id s = Some sid"
  obtains
    (render) "request_method req = GET"
      "chat env req s = (first_contact env s, [], Inr (chat_boxes 1 (rev (turns s))))"
  | (failed) t e where "request_method req = POST"
      "chat env req s = (first_contact env s, t, Inl e)" "audit_rows t = []"
  | (answered) q r t where "request_method req = POST" "request_form req ''query'' = Some q"
      "chat env req s =
         (\<lparr>history = Some (turns s @ [\<lparr>query = q, response = r\<rparr>]),
            session_id = Some (if history s = None then uuid4 env else sid)\<rparr>,
          t, Inr (chat_boxes 1 (\<lparr>query = q, response = r\<rparr> # rev (turns s))))"
      "\<forall>row\<in>set (audit_rows t). row = [if history s = None then uuid4 env else sid, utcnow_isoformat env, q, r]"
proof (cases "request_method req")
  case GET
  then show ?thesis using render chat_GET by blast
next
  case POST
  show ?thesis
  proof (cases "request_form req ''query''")
    case None
    with POST chat_no_query [of req env s] failed show ?thesis by fastforce
  next
    case (Some q)
    obtain t1 x where rc: "retrieve_context env q 20 = (t1, x)"
      by (cases "retrieve_context env q 20")
    have t1: "audit_rows t1 = []"
      using audit_rows_retrieve_context [of env q 20] rc by simp
    show ?thesis
    proof (cases x)
      case (Inl e)
      with POST Some rc t1 chat_retrieval_fails [of req q env t1 e s] failed show ?thesis
        by blast
    next
      case (Inr c)
      let ?sid = "if history s = None then uuid4 env else sid"
      let ?r = "case generate_content env MODEL_NAME (compose_prompt c q) of
             Inl e \<Rightarrow> WARNING_SIGN @ '' Error generating response: '' @ exn_str e
           | Inr t \<Rightarrow> t"
      let ?t = "t1 @ [GenerateContent MODEL_NAME (compose_prompt c q)]
              @ fst (log_to_google_sheet env ?sid q ?r)"
      have c: "chat env req s =
          (\<lparr>history = Some (turns s @ [\<lparr>query = q, response = ?r\<rparr>]), session_id = Some ?sid\<rparr>,
           ?t, Inr (chat_boxes 1 (\<lparr>query = q, response = ?r\<rparr> # rev (turns s))))"
        using POST Some rc Inr ok by (intro chat_answers) auto
      have "\<forall>row\<in>set (audit_rows ?t). row = [?sid, utcnow_isoformat env, q, ?r]"
        using t1 audit_rows_log_to_google_sheet [of _ env ?sid q ?r]
        by (auto simp: audit_rows_append)
      with POST Some c answered show ?thesis by blast
    qed
  qed
qed

lemma retrieve_context_services:
  "embedder_encode env' = embedder_encode env \<Longrightarrow> index_query env' = index_query env \<Longrightarrow>
   retrieve_context env' q k = retrieve_context env q k"
  by (simp add: retrieve_context_def)

lemma generate_response_services:
  "generate_content env' = generate_content env \<Longrightarrow>
   generate_response env' p = generate_response env p"
  by (simp add: generate_response_def)

lemma log_to_google_sheet_Inl: "log_to_google_sheet env sid q r = (t, Inl e) \<Longrightarrow> False"
  using log_to_google_sheet_returns [of env sid q r] by simp

lemma log_to_google_sheet_generate:
  "log_to_google_sheet (env\<lparr>generate_content := g\<rparr>) sid q r = log_to_google_sheet env sid q r"
  by (simp add: log_to_google_sheet_def get_google_credentials_def split: option.splits)

lemma chat_boxes_turns: "map (\<lambda>b. \<lparr>query = you b, response = bot b\<rparr>) (chat_boxes i ps) = ps"
  by (induction ps arbitrary: i) simp_all

lemma chat_boxes_index: "map loop_index (chat_boxes i ps) = [i..<i + length ps]"
  by (induction ps arbitrary: i) (simp_all add: upt_rec)

text \<open>What one request does to the session and what it shows, for any session.\<close>

lemma chat_result:
  "chat env req s = (s', t, x) \<Longrightarrow>
   (request_method req = GET \<and> s' = first_contact env s
      \<and> x = Inr (chat_boxes 1 (rev (turns s'))))
   \<or> (request_method req = POST \<and> s' = first_contact env s \<and> (\<exists>e. x = Inl e))
   \<or> (request_method req = POST
      \<and> (\<exists>q r. request_form req ''query'' = Some q
            \<and> s' = (first_contact env s)\<lparr>history := Some (turns s @ [\<lparr>query = q, response = r\<rparr>])\<rparr>
            \<and> (x = Inr (chat_boxes 1 (rev (turns s'))) \<or> x = Inl (key_error ''session_id''))))"
proof (cases "request_method req")
  case GET
  assume "chat env req s = (s', t, x)"
  with GET chat_GET [OF GET, of env s] show ?thesis
    by (simp add: first_contact_turns)
next
  case POST
  assume c: "chat env req s = (s', t, x)"
  have h: "history (first_contact env s) = Some (turns s)"
    by (auto simp: first_contact_def turns_def)
  show ?thesis
  proof (cases "request_form req ''query''")
    case None
    with POST c chat_no_query [OF POST None, of env s] show ?thesis by auto
  next
    case (Some q)
    with POST c h show ?thesis
      by (auto simp: chat_def Let_def form_query_def generate_response_eq history_append_def
          get_session_id_def render_history_def render_template_string_def turns_def
          split: prod.splits sum.splits option.splits dest: log_to_google_sheet_Inl)
  qed
qed

lemma turns_history_update: "turns (s\<lparr>history := Some h\<rparr>) = h"
  by (simp add: turns_def)

lemma first_contact_audit:
  "first_contact (env\<lparr>GOOGLE_CREDS_B64 := c, from_service_account_info := f,
       gspread_authorize := a, client_open := opn, sheet_append_row := w\<rparr>) s
   = first_contact env s"
  by (simp add: first_contact_def)

lemma chat_step:
  assumes "history s = None \<or> session_id s = Some sid"
  shows "history (fst (chat env req s)) \<noteq> None
       \<and> session_id (fst (chat env req s)) = Some (if history s = None then uuid4 env else sid)
       \<and> (\<forall>row\<in>set (audit_rows (fst (snd (chat env req s)))).
             hd row = (if history s = None then uuid4 env else sid))"
  using assms
proof (cases rule: chat_cases [of s sid req env])
  case render
  then show ?thesis
    using first_contact_history [of env s] first_contact_session_id [OF assms, of env] by simp
next
  case (failed t e)
  then show ?thesis
    using first_contact_history [of env s] first_contact_session_id [OF assms, of env] by simp
next
  case (answered q r t)
  then show ?thesis by auto
qed

lemma run_keeps_session_id:
  "history s \<noteq> None \<Longrightarrow> session_id s = Some sid \<Longrightarrow>
   session_id (fst (run rs s)) = Some sid
   \<and> (\<forall>row\<in>set (audit_rows (snd (run rs s))). hd row = sid)"
proof (induction rs arbitrary: s)
  case Nil
  then show ?case by simp
next
  case (Cons a rs)
  obtain env req where a: "a = (env, req)" by (cases a)
  obtain s' t x where c: "chat env req s = (s', t, x)" by (cases "chat env req s")
  from Cons.prems have "history s = None \<or> session_id s = Some sid" by simp
  from chat_step [OF this, of env req] c Cons.prems
  have s': "history s' \<noteq> None" "session_id s' = Some sid"
    and t: "\<forall>row\<in>set (audit_rows t). hd row = sid"
    by auto
  from Cons.IH [OF s'] a c t show ?case
    by (auto simp: audit_rows_append split: prod.splits)
qed

lemma reachable_invariant: "reachable s \<Longrightarrow> (history s = None) = (session_id s = None)"
proof (induction rule: reachable.induct)
  case reachable_empty
  then show ?case by (simp add: empty_session_def)
next
  case (reachable_chat s env req)
  then obtain sid where "history s = None \<or> session_id s = Some sid"
    by (cases "history s") auto
  from chat_step [OF this, of env req] show ?case by simp
qed

lemma audit_rows_run_Cons:
  "audit_rows (snd (run ((env, req) # rs) s)) =
     audit_rows (fst (snd (chat env req s))) @ audit_rows (snd (run rs (fst (chat env req s))))"
  by (simp add: audit_rows_append split: prod.splits)

text \<open>The concrete scenario, evaluated.\<close>

lemma demo_retrieve_context:
  "retrieve_context demo_services demo_question 20 =
     ([EmbedderEncode [''query: '' @ demo_question], IndexQuery [0, 1] 20 True],
      Inr (''Lock all valves (source: doc1)'' @ [CHR 0x0A, CHR 0x0A]
             @ ''Notify supervisor (source: doc2)''))"
proof -
  have enc: "embedder_encode demo_services [''query: '' @ demo_question] = Inr ([0, 1] # [])"
    by (simp add: demo_services_def)
  have idx: "index_query demo_services [0, 1] 20 True = Inr demo_matches"
    by (simp add: demo_services_def)
  from retrieve_context_ok [OF enc idx] show ?thesis
    by (simp add: demo_matches_def context_piece_def)
qed

lemma demo_chat_post:
  assumes "history s = None \<or> session_id s = Some sid"
  shows "fst (chat demo_services demo_post s) =
           \<lparr>history = Some (turns s @ [\<lparr>query = demo_question,
                      response = ''Lock all valves, then notify the supervisor.''\<rparr>]),
              session_id = Some (if history s = None then uuid4 demo_services else sid)\<rparr>"
    and "snd (snd (chat demo_services demo_post s)) =
           Inr (chat_boxes 1 (\<lparr>query = demo_question,
                      response = ''Lock all valves, then notify the supervisor.''\<rparr> # rev (turns s)))"
proof -
  have post: "request_method demo_post = POST"
    by (simp add: demo_post_def)
  have form: "request_form demo_post ''query'' = Some demo_question"
    by (simp add: demo_post_def)
  have r: "''Lock all valves, then notify the supervisor.'' =
      (case generate_content demo_services MODEL_NAME
              (compose_prompt (''Lock all valves (source: doc1)'' @ [CHR 0x0A, CHR 0x0A]
             @ ''Notify supervisor (source: doc2)'') demo_question) of
         Inl e \<Rightarrow> WARNING_SIGN @ '' Error generating response: '' @ exn_str e
       | Inr t \<Rightarrow> t)"
    by (simp add: demo_services_def)
  note c = chat_answers [OF post form demo_retrieve_context assms refl r]
  from c show "fst (chat demo_services demo_post s) =
           \<lparr>history = Some (turns s @ [\<lparr>query = demo_question,
                      response = ''Lock all valves, then notify the supervisor.''\<rparr>]),
              session_id = Some (if history s = None then uuid4 demo_services else sid)\<rparr>"
    by simp
  from c show "snd (snd (chat demo_services demo_post s)) =
           Inr (chat_boxes 1 (\<lparr>query = demo_question,
                      response = ''Lock all valves, then notify the supervisor.''\<rparr> # rev (turns s)))"
    by simp
qed

lemma demo_post_rows:
  assumes ok: "history s = None \<or> session_id s = Some sid"
  shows "audit_rows (fst (snd (chat (demo_services\<lparr>uuid4 := u\<rparr>) demo_post s))) =
           [[if history s = None then u else sid, ''2024-05-01T12:00:00'', demo_question,
             ''Lock all valves, then notify the supervisor.'']]"
proof -
  let ?env = "demo_services\<lparr>uuid4 := u\<rparr>"
  let ?r = "''Lock all valves, then notify the supervisor.''"
  have post: "request_method demo_post = POST"
    by (simp add: demo_post_def)
  have form: "request_form demo_post ''query'' = Some demo_question"
    by (simp add: demo_post_def)
  have rc: "retrieve_context ?env demo_question 20 =
     ([EmbedderEncode [''query: '' @ demo_question], IndexQuery [0, 1] 20 True],
      Inr (''Lock all valves (source: doc1)'' @ [CHR 0x0A, CHR 0x0A]
             @ ''Notify supervisor (source: doc2)''))"
    using demo_retrieve_context retrieve_context_services [of ?env demo_services demo_question 20]
    by simp
  have sid: "(if history s = None then u else sid) = (if history s = None then uuid4 ?env else sid)"
    by simp
  have r: "?r = (case generate_content ?env MODEL_NAME
              (compose_prompt (''Lock all valves (source: doc1)'' @ [CHR 0x0A, CHR 0x0A]
             @ ''Notify supervisor (source: doc2)'') demo_question) of
         Inl e \<Rightarrow> WARNING_SIGN @ '' Error generating response: '' @ exn_str e
       | Inr t \<Rightarrow> t)"
    by (simp add: demo_services_def)
  have l: "fst (log_to_google_sheet ?env sid' q r) =
     [GspreadAuthorize ''credentials'', ClientOpen ''client'' ''Iron-LLM logs'',
      AppendRow ''sheet1'' [sid', ''2024-05-01T12:00:00'', q, r]]" for sid' q r
    by (simp add: log_to_google_sheet_def get_google_credentials_def demo_services_def
        io_result_def io_call_def SPREADSHEET_NAME_def)
  from chat_answers [OF post form rc ok sid r] show ?thesis
    by (simp add: audit_rows_append l)
qed

subsection \<open>The prompt\<close>

text \<open>
  C2. For every context block and every question, the prompt is the fixed template:
  the instruction line, a blank line, the context block, a blank line, and
  \<^verbatim>\<open>"Question: "\<close> followed by the question. So the prompt contains the question text, ends
  with \<^verbatim>\<open>"Question: "\<close> and the question, and is not empty, also for the empty context that
  retrieval gives for zero matches.
\<close>

theorem compose_prompt_template:
  "compose_prompt c q =
     ''Use this context to answer the question:'' @ [CHR 0x0A] @ [CHR 0x0A] @ c
       @ [CHR 0x0A] @ [CHR 0x0A] @ ''Question: '' @ q
   \<and> sublist q (compose_prompt c q)
   \<and> suffix (''Question: '' @ q) (compose_prompt c q)
   \<and> compose_prompt c q \<noteq> []
   \<and> compose_prompt [] q \<noteq> []"
proof -
  have tmpl: "compose_prompt c q =
     ''Use this context to answer the question:'' @ [CHR 0x0A] @ [CHR 0x0A] @ c
       @ [CHR 0x0A] @ [CHR 0x0A] @ ''Question: '' @ q"
    by (simp add: compose_prompt_def NL_def)
  have suf: "suffix (''Question: '' @ q) (compose_prompt c q)"
    unfolding tmpl suffix_def by (rule exI [of _ "''Use this context to answer the question:'' @ [CHR 0x0A] @ [CHR 0x0A] @ c @ [CHR 0x0A] @ [CHR 0x0A]"]) simp
  have "suffix q (''Question: '' @ q)"
    by (rule suffix_appendI) simp
  from this suf have "suffix q (compose_prompt c q)"
    by (rule suffix_order.trans)
  then have sub: "sublist q (compose_prompt c q)"
    by (rule suffix_imp_sublist)
  have ne: "compose_prompt c' q \<noteq> []" for c'
    by (simp add: compose_prompt_def)
  from tmpl sub suf ne show ?thesis by blast
qed

subsection \<open>Retrieval\<close>

text \<open>
  C1. When the embedder answers and the index returns the matches \<open>ms\<close>, each carrying a
  text, \<^verbatim>\<open>retrieve_context\<close> embeds \<^verbatim>\<open>"query: "\<close> followed by the query, asks the index for
  the top \<open>k\<close> with metadata, and returns the pieces \<^verbatim>\<open>"<text> (source: <source>)"\<close>, with
  \<^verbatim>\<open>unknown\<close> for an absent source, joined by a blank line, one piece per match in the order
  of \<open>ms\<close>. The scenario of the two matches of \<^verbatim>\<open>doc1\<close> and \<^verbatim>\<open>doc2\<close> is the instance below.
\<close>

theorem retrieve_context_formats:
  assumes enc: "embedder_encode env [''query: '' @ q] = Inr (v # vs)"
      and idx: "index_query env v k True = Inr ms"
      and has_text: "\<forall>m\<in>set ms. metadata m ''text'' \<noteq> None"
  shows "retrieve_context env q k =
          ([EmbedderEncode [''query: '' @ q], IndexQuery v k True],
           Inr (join [CHR 0x0A, CHR 0x0A]
                  (map (\<lambda>m. the (metadata m ''text'') @ '' (source: ''
                          @ (case metadata m ''source'' of None \<Rightarrow> ''unknown'' | Some s \<Rightarrow> s)
                          @ '')'') ms)))"
  using retrieve_context_ok [OF enc idx] context_pieces_present [OF has_text] by simp

theorem retrieve_context_formats_witness:
  "embedder_encode demo_services [''query: '' @ demo_question] = Inr ([0, 1] # [])
   \<and> index_query demo_services [0, 1] 20 True = Inr demo_matches
   \<and> map (\<lambda>m. metadata m ''text'') demo_matches
       = [Some ''Lock all valves'', Some ''Notify supervisor'']
   \<and> retrieve_context demo_services ''What is the lockout procedure?'' 20 =
       ([EmbedderEncode [''query: What is the lockout procedure?''], IndexQuery [0, 1] 20 True],
        Inr (''Lock all valves (source: doc1)'' @ [CHR 0x0A, CHR 0x0A]
               @ ''Notify supervisor (source: doc2)''))"
proof -
  have enc: "embedder_encode demo_services [''query: '' @ demo_question] = Inr ([0, 1] # [])"
    by (simp add: demo_services_def)
  have idx: "index_query demo_services [0, 1] 20 True = Inr demo_matches"
    by (simp add: demo_services_def)
  have has_text: "\<forall>m\<in>set demo_matches. metadata m ''text'' \<noteq> None"
    by (simp add: demo_matches_def)
  from retrieve_context_formats [OF enc idx has_text] enc idx has_text show ?thesis
    by (simp add: demo_matches_def demo_question_def)
qed

text \<open>
  C6. When the index returns no match, the context is the empty string and not an error, and
  a POST still calls the generative model, with the prompt built from that empty context;
  the turn it records holds what that call gave.
\<close>

theorem zero_matches_still_generate:
  assumes post: "request_method req = POST" and form: "request_form req ''query'' = Some q"
      and enc: "embedder_encode env [''query: '' @ q] = Inr (v # vs)"
      and idx: "index_query env v 20 True = Inr []"
      and ok: "history s = None \<or> session_id s \<noteq> None"
  shows "snd (retrieve_context env q 20) = Inr []
       \<and> GenerateContent ''gemini-1.5-flash'' (compose_prompt [] q) \<in> set (fst (snd (chat env req s)))
       \<and> (\<exists>page. snd (snd (chat env req s)) = Inr page)
       \<and> turns (fst (chat env req s)) =
           turns s @ [\<lparr>query = q,
                        response = (case generate_content env ''gemini-1.5-flash'' (compose_prompt [] q) of
                                      Inl e \<Rightarrow> WARNING_SIGN @ '' Error generating response: '' @ exn_str e
                                    | Inr t \<Rightarrow> t)\<rparr>]"
proof -
  have rc: "retrieve_context env q 20 =
      ([EmbedderEncode [''query: '' @ q], IndexQuery v 20 True], Inr [])"
    using retrieve_context_ok [OF enc idx] by simp
  from ok obtain sid where ok': "history s = None \<or> session_id s = Some sid" by auto
  from chat_answers [OF post form rc ok' refl refl] rc show ?thesis
    by (simp add: MODEL_NAME_def turns_def)
qed

theorem zero_matches_still_generate_witness:
  "snd (retrieve_context (demo_services\<lparr>index_query := \<lambda>v k md. Inr []\<rparr>) demo_question 20) = Inr []
   \<and> GenerateContent ''gemini-1.5-flash''
        (''Use this context to answer the question:'' @ [CHR 0x0A, CHR 0x0A, CHR 0x0A, CHR 0x0A]
           @ ''Question: What is the lockout procedure?'')
       \<in> set (fst (snd (chat (demo_services\<lparr>index_query := \<lambda>v k md. Inr []\<rparr>) demo_post empty_session)))"
  using zero_matches_still_generate [of demo_post demo_question
      "demo_services\<lparr>index_query := \<lambda>v k md. Inr []\<rparr>" "[0, 1]" "[]" empty_session]
  by (simp add: demo_services_def demo_post_def demo_question_def empty_session_def
      compose_prompt_def NL_def)

text \<open>
  C8. When the embedding call or the index query of a POST raises, the same exception leaves
  \<^verbatim>\<open>retrieve_context\<close> and the handler: there is no page, no turn is recorded, and no call
  other than the embedding and the index query is made.
\<close>

theorem retrieval_failure_propagates:
  assumes post: "request_method req = POST" and form: "request_form req ''query'' = Some q"
      and fails: "embedder_encode env [''query: '' @ q] = Inl e
                  \<or> (embedder_encode env [''query: '' @ q] = Inr (v # vs)
                      \<and> index_query env v 20 True = Inl e)"
  shows "snd (retrieve_context env q 20) = Inl e
       \<and> snd (snd (chat env req s)) = Inl e
       \<and> turns (fst (chat env req s)) = turns s
       \<and> (\<forall>c\<in>set (fst (snd (chat env req s))).
             (\<exists>texts. c = EmbedderEncode texts) \<or> (\<exists>v k md. c = IndexQuery v k md))"
proof -
  obtain t1 where rc: "retrieve_context env q 20 = (t1, Inl e)"
    and t1: "t1 = [EmbedderEncode [''query: '' @ q]]
             \<or> t1 = [EmbedderEncode [''query: '' @ q], IndexQuery v 20 True]"
    using fails
    by (auto simp: retrieve_context_def io_call_def io_result_def io_return_def first_row_def)
  from chat_retrieval_fails [OF post form rc, of s] rc t1 show ?thesis
    by (auto simp: first_contact_turns)
qed

theorem retrieval_failure_propagates_witness:
  "snd (snd (chat (demo_services\<lparr>index_query := \<lambda>v k md. Inl (Exn ServiceError ''index unavailable'')\<rparr>)
               demo_post empty_session))
     = Inl (Exn ServiceError ''index unavailable'')
   \<and> turns (fst (chat (demo_services\<lparr>index_query := \<lambda>v k md. Inl (Exn ServiceError ''index unavailable'')\<rparr>)
               demo_post empty_session)) = []"
  using retrieval_failure_propagates [of demo_post demo_question
      "demo_services\<lparr>index_query := \<lambda>v k md. Inl (Exn ServiceError ''index unavailable'')\<rparr>"
      "Exn ServiceError ''index unavailable''" "[0, 1]" "[]" empty_session]
  by (simp add: demo_services_def demo_post_def demo_question_def empty_session_def turns_def)

text \<open>
  C9. A match with a text and no source is formatted with the label \<^verbatim>\<open>unknown\<close>, without
  error; a match without a text raises \<^verbatim>\<open>KeyError('text')\<close>, and so does retrieval whenever
  the index returns such a match.
\<close>

theorem missing_source_unknown_missing_text_raises:
  "(metadata m ''text'' = Some t \<longrightarrow> metadata m ''source'' = None \<longrightarrow>
      context_piece m = Inr (t @ '' (source: unknown)''))
   \<and> (metadata m' ''text'' = None \<longrightarrow> context_piece m' = Inl (key_error ''text''))
   \<and> (embedder_encode env [''query: '' @ q] = Inr (v # vs) \<longrightarrow>
      index_query env v k True = Inr ms \<longrightarrow>
      (\<exists>m\<in>set ms. metadata m ''text'' = None) \<longrightarrow>
      snd (retrieve_context env q k) = Inl (key_error ''text''))"
proof (intro conjI impI)
  assume "metadata m ''text'' = Some t" and "metadata m ''source'' = None"
  then show "context_piece m = Inr (t @ '' (source: unknown)'')"
    by (simp add: context_piece_def)
next
  assume "metadata m' ''text'' = None"
  then show "context_piece m' = Inl (key_error ''text'')"
    by (simp add: context_piece_def)
next
  assume enc: "embedder_encode env [''query: '' @ q] = Inr (v # vs)"
    and idx: "index_query env v k True = Inr ms"
    and "\<exists>m\<in>set ms. metadata m ''text'' = None"
  then obtain m0 where "m0 \<in> set ms" "metadata m0 ''text'' = None" by blast
  then have "context_pieces ms = Inl (key_error ''text'')"
    by (rule context_pieces_missing_text)
  with retrieve_context_ok [OF enc idx]
  show "snd (retrieve_context env q k) = Inl (key_error ''text'')"
    by simp
qed

theorem missing_source_unknown_missing_text_raises_witness:
  "context_piece demo_match_no_source = Inr ''Wear gloves (source: unknown)''
   \<and> context_piece demo_match_no_text = Inl (Exn KeyError ([CHR 0x27] @ ''text'' @ [CHR 0x27]))
   \<and> snd (retrieve_context
            (demo_services\<lparr>index_query := \<lambda>v k md. Inr (demo_matches @ [demo_match_no_text])\<rparr>)
            demo_question 20)
       = Inl (Exn KeyError ([CHR 0x27] @ ''text'' @ [CHR 0x27]))"
  using missing_source_unknown_missing_text_raises [of demo_match_no_source "''Wear gloves''"
      demo_match_no_text
      "demo_services\<lparr>index_query := \<lambda>v k md. Inr (demo_matches @ [demo_match_no_text])\<rparr>"
      demo_question "[0, 1]" "[]" 20 "demo_matches @ [demo_match_no_text]"]
  by (simp add: demo_services_def demo_match_no_source_def demo_match_no_text_def key_error_def)

subsection \<open>The handler\<close>

text \<open>
  C3. When retrieval succeeds and the generation call of a POST raises \<open>e\<close>, the handler
  returns a page and no exception; the turn it appends to the history has the query and the
  response \<^verbatim>\<open>"<warning sign> Error generating response: "\<close> followed by \<^verbatim>\<open>str(e)\<close>, and that
  turn heads the page. The whole request (session, calls, page) is what it would be had
  the generation call returned that string as its text.
\<close>

theorem generation_failure_is_answered:
  assumes post: "request_method req = POST" and form: "request_form req ''query'' = Some q"
      and rc: "retrieve_context env q 20 = (t1, Inr c)"
      and gen: "generate_content env ''gemini-1.5-flash'' (compose_prompt c q) = Inl e"
      and ok: "history s = None \<or> session_id s \<noteq> None"
  shows "snd (snd (chat env req s)) =
           Inr (chat_boxes 1
                  (\<lparr>query = q,
                     response = WARNING_SIGN @ '' Error generating response: '' @ exn_str e\<rparr>
                   # rev (turns s)))
       \<and> history (fst (chat env req s)) =
           Some (turns s @ [\<lparr>query = q,
                   response = WARNING_SIGN @ '' Error generating response: '' @ exn_str e\<rparr>])
       \<and> chat env req s =
           chat (env\<lparr>generate_content :=
                   \<lambda>name prompt. Inr (WARNING_SIGN @ '' Error generating response: '' @ exn_str e)\<rparr>)
             req s"
proof -
  let ?r = "WARNING_SIGN @ '' Error generating response: '' @ exn_str e"
  let ?env = "env\<lparr>generate_content := \<lambda>name prompt. Inr ?r\<rparr>"
  from ok obtain sid where ok': "history s = None \<or> session_id s = Some sid" by auto
  let ?sid = "if history s = None then uuid4 env else sid"
  have r: "?r = (case generate_content env MODEL_NAME (compose_prompt c q) of
             Inl e \<Rightarrow> WARNING_SIGN @ '' Error generating response: '' @ exn_str e
           | Inr t \<Rightarrow> t)"
    using gen by (simp add: MODEL_NAME_def)
  have a: "chat env req s =
          (\<lparr>history = Some (turns s @ [\<lparr>query = q, response = ?r\<rparr>]), session_id = Some ?sid\<rparr>,
           t1 @ [GenerateContent MODEL_NAME (compose_prompt c q)]
              @ fst (log_to_google_sheet env ?sid q ?r),
           Inr (chat_boxes 1 (\<lparr>query = q, response = ?r\<rparr> # rev (turns s))))"
    by (rule chat_answers [OF post form rc ok' refl r])
  have rc': "retrieve_context ?env q 20 = (t1, Inr c)"
    using rc retrieve_context_services [of ?env env q 20] by simp
  have sid': "?sid = (if history s = None then uuid4 ?env else sid)"
    by simp
  have r': "?r = (case generate_content ?env MODEL_NAME (compose_prompt c q) of
             Inl e \<Rightarrow> WARNING_SIGN @ '' Error generating response: '' @ exn_str e
           | Inr t \<Rightarrow> t)"
    by simp
  have b: "chat ?env req s =
          (\<lparr>history = Some (turns s @ [\<lparr>query = q, response = ?r\<rparr>]), session_id = Some ?sid\<rparr>,
           t1 @ [GenerateContent MODEL_NAME (compose_prompt c q)]
              @ fst (log_to_google_sheet ?env ?sid q ?r),
           Inr (chat_boxes 1 (\<lparr>query = q, response = ?r\<rparr> # rev (turns s))))"
    by (rule chat_answers [OF post form rc' ok' sid' r'])
  from a b show ?thesis
    by (simp add: log_to_google_sheet_generate)
qed

theorem generation_failure_is_answered_witness:
  "snd (snd (chat (demo_services\<lparr>generate_content := \<lambda>name prompt. Inl (Exn ServiceError ''429 quota exceeded'')\<rparr>)
               demo_post empty_session))
     = Inr [\<lparr>loop_index = 1, you = ''What is the lockout procedure?'',
              bot = [CHR 0xE2, CHR 0x9A, CHR 0xA0, CHR 0xEF, CHR 0xB8, CHR 0x8F]
                      @ '' Error generating response: 429 quota exceeded''\<rparr>]
   \<and> history (fst (chat (demo_services\<lparr>generate_content := \<lambda>name prompt. Inl (Exn ServiceError ''429 quota exceeded'')\<rparr>)
               demo_post empty_session))
     = Some [\<lparr>query = ''What is the lockout procedure?'',
               response = [CHR 0xE2, CHR 0x9A, CHR 0xA0, CHR 0xEF, CHR 0xB8, CHR 0x8F]
                      @ '' Error generating response: 429 quota exceeded''\<rparr>]"
proof -
  let ?env = "demo_services\<lparr>generate_content := \<lambda>name prompt. Inl (Exn ServiceError ''429 quota exceeded'')\<rparr>"
  have post: "request_method demo_post = POST"
    by (simp add: demo_post_def)
  have form: "request_form demo_post ''query'' = Some demo_question"
    by (simp add: demo_post_def)
  have enc: "embedder_encode ?env [''query: '' @ demo_question] = Inr ([0, 1] # [])"
    by (simp add: demo_services_def)
  have idx: "index_query ?env [0, 1] 20 True = Inr demo_matches"
    by (simp add: demo_services_def)
  have rc: "retrieve_context ?env demo_question 20 =
      ([EmbedderEncode [''query: '' @ demo_question], IndexQuery [0, 1] 20 True],
       Inr (''Lock all valves (source: doc1)'' @ [CHR 0x0A, CHR 0x0A]
               @ ''Notify supervisor (source: doc2)''))"
    using retrieve_context_ok [OF enc idx]
    by (simp add: demo_matches_def context_piece_def)
  have gen: "generate_content ?env ''gemini-1.5-flash''
       (compose_prompt (''Lock all valves (source: doc1)'' @ [CHR 0x0A, CHR 0x0A]
               @ ''Notify supervisor (source: doc2)'') demo_question)
       = Inl (Exn ServiceError ''429 quota exceeded'')"
    by simp
  have ok: "history empty_session = None \<or> session_id empty_session \<noteq> None"
    by (simp add: empty_session_def)
  note answered = generation_failure_is_answered [OF post form rc gen ok]
  from answered [THEN conjunct1] answered [THEN conjunct2, THEN conjunct1] show ?thesis
    by (simp add: turns_def empty_session_def WARNING_SIGN_def demo_question_def)
qed

text \<open>
  C4. Appending a turn to a session that has a history gives the old turns followed by
  the new one: one turn more, the first turns unchanged. No request removes or changes a
  recorded turn; a POST that returns a page has appended exactly one turn, whose query is the
  form field, and a GET appends none.
\<close>

theorem history_is_append_only:
  "(history s \<noteq> None \<longrightarrow>
      (\<exists>s'. history_append s t = Inr s' \<and> turns s' = turns s @ [t]
            \<and> length (turns s') = Suc (length (turns s))
            \<and> take (length (turns s)) (turns s') = turns s))
   \<and> prefix (turns s) (turns (fst (chat env req s)))
   \<and> (request_method req = POST \<longrightarrow> snd (snd (chat env req s)) = Inr page \<longrightarrow>
        (\<exists>q r. request_form req ''query'' = Some q
           \<and> turns (fst (chat env req s)) = turns s @ [\<lparr>query = q, response = r\<rparr>]))
   \<and> (request_method req = GET \<longrightarrow> turns (fst (chat env req s)) = turns s)"
proof -
  obtain s' tr x where c: "chat env req s = (s', tr, x)"
    by (cases "chat env req s")
  have a: "history s \<noteq> None \<longrightarrow>
      (\<exists>s'. history_append s t = Inr s' \<and> turns s' = turns s @ [t]
            \<and> length (turns s') = Suc (length (turns s))
            \<and> take (length (turns s)) (turns s') = turns s)"
    by (auto simp: history_append_def turns_def)
  from chat_result [OF c] consider
      (shown) "request_method req = GET" "turns s' = turns s"
    | (failed) "request_method req = POST" "turns s' = turns s" "\<exists>e. x = Inl e"
    | (appended) q r where "request_method req = POST" "request_form req ''query'' = Some q"
        "turns s' = turns s @ [\<lparr>query = q, response = r\<rparr>]"
    by (auto simp: first_contact_turns turns_history_update)
  then have "prefix (turns s) (turns s')
      \<and> (request_method req = POST \<longrightarrow> x = Inr page \<longrightarrow>
        (\<exists>q r. request_form req ''query'' = Some q
           \<and> turns s' = turns s @ [\<lparr>query = q, response = r\<rparr>]))
      \<and> (request_method req = GET \<longrightarrow> turns s' = turns s)"
    by cases auto
  with a c show ?thesis by simp
qed

theorem history_is_append_only_witness:
  "(\<exists>s'. history_append demo_session \<lparr>query = ''Q'', response = ''A''\<rparr> = Inr s'
          \<and> turns s' = [\<lparr>query = ''Hello'', response = ''Hi''\<rparr>, \<lparr>query = ''Q'', response = ''A''\<rparr>])
   \<and> prefix [\<lparr>query = ''Hello'', response = ''Hi''\<rparr>]
         (turns (fst (chat demo_services demo_post demo_session)))
   \<and> (\<exists>r. turns (fst (chat demo_services demo_post demo_session)) =
            [\<lparr>query = ''Hello'', response = ''Hi''\<rparr>,
             \<lparr>query = ''What is the lockout procedure?'', response = r\<rparr>])
   \<and> turns (fst (chat demo_services demo_get demo_session))
       = [\<lparr>query = ''Hello'', response = ''Hi''\<rparr>]"
proof -
  have ok: "history demo_session = None
      \<or> session_id demo_session = Some ''6fa459ea-ee8a-4ca4-894e-db77e160355e''"
    by (simp add: demo_session_def)
  have page: "snd (snd (chat demo_services demo_post demo_session)) =
      Inr (chat_boxes 1 (\<lparr>query = demo_question,
             response = ''Lock all valves, then notify the supervisor.''\<rparr> # rev (turns demo_session)))"
    by (rule demo_chat_post(2) [OF ok])
  have post: "request_method demo_post = POST"
    by (simp add: demo_post_def)
  have get: "request_method demo_get = GET"
    by (simp add: demo_get_def)
  have h: "history demo_session \<noteq> None"
    by (simp add: demo_session_def)
  have t: "turns demo_session = [\<lparr>query = ''Hello'', response = ''Hi''\<rparr>]"
    by (simp add: demo_session_def turns_def)
  note p = history_is_append_only [of demo_session "\<lparr>query = ''Q'', response = ''A''\<rparr>"
      demo_services demo_post]
  note g = history_is_append_only [of demo_session "\<lparr>query = ''Q'', response = ''A''\<rparr>"
      demo_services demo_get]
  from p [THEN conjunct1] h t
  have 1: "\<exists>s'. history_append demo_session \<lparr>query = ''Q'', response = ''A''\<rparr> = Inr s'
          \<and> turns s' = [\<lparr>query = ''Hello'', response = ''Hi''\<rparr>, \<lparr>query = ''Q'', response = ''A''\<rparr>]"
    by auto
  from p [THEN conjunct2, THEN conjunct1] t
  have 2: "prefix [\<lparr>query = ''Hello'', response = ''Hi''\<rparr>]
         (turns (fst (chat demo_services demo_post demo_session)))"
    by simp
  from p [THEN conjunct2, THEN conjunct2, THEN conjunct1, rule_format, OF post page] t
  have 3: "\<exists>r. turns (fst (chat demo_services demo_post demo_session)) =
            [\<lparr>query = ''Hello'', response = ''Hi''\<rparr>,
             \<lparr>query = ''What is the lockout procedure?'', response = r\<rparr>]"
    by (auto simp: demo_post_def demo_question_def)
  from g [THEN conjunct2, THEN conjunct2, THEN conjunct2, rule_format, OF get] t
  have 4: "turns (fst (chat demo_services demo_get demo_session))
       = [\<lparr>query = ''Hello'', response = ''Hi''\<rparr>]"
    by simp
  from 1 2 3 4 show ?thesis by blast
qed

text \<open>
  C5. Whenever the handler returns a page, for GET and for POST, its chat boxes are the
  turns of the session in reverse order of appending, numbered from 1; after a POST the
  first box is the turn that this request appended.
\<close>

theorem transcript_most_recent_first:
  assumes c: "chat env req s = (s', t, Inr page)"
  shows "map (\<lambda>b. \<lparr>query = you b, response = bot b\<rparr>) page = rev (turns s')
       \<and> map loop_index page = [1..<Suc (length (turns s'))]
       \<and> (request_method req = POST \<longrightarrow>
            (\<exists>q r rest. request_form req ''query'' = Some q
               \<and> turns s' = turns s @ [\<lparr>query = q, response = r\<rparr>]
               \<and> page = \<lparr>loop_index = 1, you = q, bot = r\<rparr> # rest))"
proof -
  from chat_result [OF c] have page: "page = chat_boxes 1 (rev (turns s'))"
    by auto
  from chat_result [OF c] have "request_method req = POST \<longrightarrow>
      (\<exists>q r. request_form req ''query'' = Some q
         \<and> turns s' = turns s @ [\<lparr>query = q, response = r\<rparr>])"
    by (auto simp: turns_history_update)
  with page have "request_method req = POST \<longrightarrow>
            (\<exists>q r rest. request_form req ''query'' = Some q
               \<and> turns s' = turns s @ [\<lparr>query = q, response = r\<rparr>]
               \<and> page = \<lparr>loop_index = 1, you = q, bot = r\<rparr> # rest)"
    by auto
  with page show ?thesis
    by (simp add: chat_boxes_turns chat_boxes_index)
qed

theorem transcript_most_recent_first_witness:
  "\<exists>page. snd (snd (chat demo_services demo_post demo_session)) = Inr page
     \<and> map (\<lambda>b. \<lparr>query = you b, response = bot b\<rparr>) page =
         [\<lparr>query = ''What is the lockout procedure?'',
            response = ''Lock all valves, then notify the supervisor.''\<rparr>,
          \<lparr>query = ''Hello'', response = ''Hi''\<rparr>]
     \<and> map loop_index page = [1, 2]"
proof -
  have ok: "history demo_session = None
      \<or> session_id demo_session = Some ''6fa459ea-ee8a-4ca4-894e-db77e160355e''"
    by (simp add: demo_session_def)
  obtain s' t page where c: "chat demo_services demo_post demo_session = (s', t, Inr page)"
    using demo_chat_post(2) [OF ok] by (cases "chat demo_services demo_post demo_session") auto
  have s': "turns s' = [\<lparr>query = ''Hello'', response = ''Hi''\<rparr>,
      \<lparr>query = ''What is the lockout procedure?'',
         response = ''Lock all valves, then notify the supervisor.''\<rparr>]"
    using demo_chat_post(1) [OF ok] c by (simp add: turns_def demo_session_def demo_question_def)
  from transcript_most_recent_first [OF c] c s' show ?thesis
    by (simp add: upt_rec)
qed

text \<open>
  C7. \<^verbatim>\<open>log_to_google_sheet\<close> never raises, whatever the credential decoding, the
  authorization, the opening of the spreadsheet and the appending of the row do; and the
  session and the outcome of a request (the page, or the exception) do not depend on these
  four, so they are what they are when the row is appended.
\<close>

theorem audit_failures_are_invisible:
  "snd (log_to_google_sheet env sid q r) = Inr ()
   \<and> fst (chat (env\<lparr>GOOGLE_CREDS_B64 := c, from_service_account_info := f,
                    gspread_authorize := a, client_open := opn, sheet_append_row := w\<rparr>) req s)
       = fst (chat env req s)
   \<and> snd (snd (chat (env\<lparr>GOOGLE_CREDS_B64 := c, from_service_account_info := f,
                    gspread_authorize := a, client_open := opn, sheet_append_row := w\<rparr>) req s))
       = snd (snd (chat env req s))"
proof -
  let ?env = "env\<lparr>GOOGLE_CREDS_B64 := c, from_service_account_info := f,
                    gspread_authorize := a, client_open := opn, sheet_append_row := w\<rparr>"
  have rc: "retrieve_context ?env q' k = retrieve_context env q' k" for q' k
    by (rule retrieve_context_services) simp_all
  have gr: "generate_response ?env p = generate_response env p" for p
    by (rule generate_response_services) simp
  have "fst (chat ?env req s) = fst (chat env req s)
      \<and> snd (snd (chat ?env req s)) = snd (snd (chat env req s))"
    by (auto simp: chat_def Let_def rc gr first_contact_audit
        split: http_method.splits sum.splits prod.splits dest: log_to_google_sheet_Inl)
  with log_to_google_sheet_returns [of env sid q r] show ?thesis by simp
qed

theorem audit_failures_are_invisible_witness:
  "snd (log_to_google_sheet (demo_services\<lparr>GOOGLE_CREDS_B64 := None\<rparr>) ''sid'' ''q'' ''r'') = Inr ()
   \<and> snd (snd (chat (demo_services\<lparr>GOOGLE_CREDS_B64 := None,
                 from_service_account_info := \<lambda>b scopes. Inl (Exn ValueError ''bad credentials''),
                 gspread_authorize := \<lambda>c. Inl (Exn ServiceError ''unauthorized''),
                 client_open := \<lambda>c name. Inl (Exn ServiceError ''SpreadsheetNotFound''),
                 sheet_append_row := \<lambda>sh row. Inl (Exn ServiceError ''APIError'')\<rparr>)
              demo_post demo_session))
       = Inr (chat_boxes 1 [\<lparr>query = ''What is the lockout procedure?'',
                 response = ''Lock all valves, then notify the supervisor.''\<rparr>,
               \<lparr>query = ''Hello'', response = ''Hi''\<rparr>])"
proof -
  have ok: "history demo_session = None
      \<or> session_id demo_session = Some ''6fa459ea-ee8a-4ca4-894e-db77e160355e''"
    by (simp add: demo_session_def)
  note a = audit_failures_are_invisible [where env = "demo_services\<lparr>GOOGLE_CREDS_B64 := None\<rparr>"
      and sid = "''sid''" and q = "''q''" and r = "''r''"]
  note b = audit_failures_are_invisible [where env = demo_services and c = None
      and f = "\<lambda>b scopes. Inl (Exn ValueError ''bad credentials'')"
      and a = "\<lambda>c. Inl (Exn ServiceError ''unauthorized'')"
      and opn = "\<lambda>c name. Inl (Exn ServiceError ''SpreadsheetNotFound'')"
      and w = "\<lambda>sh row. Inl (Exn ServiceError ''APIError'')"
      and req = demo_post and s = demo_session]
  from a [THEN conjunct1] b [THEN conjunct2, THEN conjunct2] demo_chat_post(2) [OF ok]
  show ?thesis
    by (simp add: demo_session_def turns_def demo_question_def)
qed

text \<open>
  C10. In every session that requests can produce from the empty session, history and
  session id are both present or both absent; the first request creates both. A session id,
  once present in such a session, is the session id after any further request and after any
  sequence of requests, and every row given to the spreadsheet during them starts with it.
\<close>

theorem session_id_is_stable:
  "(reachable s \<longrightarrow> (history s = None) = (session_id s = None))
   \<and> history (fst (chat env req empty_session)) \<noteq> None
   \<and> session_id (fst (chat env req empty_session)) = Some (uuid4 env)
   \<and> (reachable s \<longrightarrow> session_id s = Some sid \<longrightarrow>
        session_id (fst (chat env req s)) = Some sid
        \<and> session_id (fst (run rs s)) = Some sid
        \<and> (\<forall>row\<in>set (audit_rows (snd (run rs s))). hd row = sid))
   \<and> (\<forall>row\<in>set (audit_rows (snd (run rs empty_session))).
        Some (hd row) = session_id (fst (run rs empty_session)))"
proof -
  have e: "history empty_session = None \<or> session_id empty_session = Some sid"
    by (simp add: empty_session_def)
  note first = chat_step [OF e, of env req]
  have stable: "session_id (fst (chat env req s)) = Some sid
        \<and> session_id (fst (run rs s)) = Some sid
        \<and> (\<forall>row\<in>set (audit_rows (snd (run rs s))). hd row = sid)"
    if r: "reachable s" and sid: "session_id s = Some sid"
  proof -
    from reachable_invariant [OF r] sid have h: "history s \<noteq> None" by simp
    then have "history s = None \<or> session_id s = Some sid" using sid by simp
    from chat_step [OF this, of env req] h run_keeps_session_id [OF h sid, of rs]
    show ?thesis by simp
  qed
  have rows: "\<forall>row\<in>set (audit_rows (snd (run rs empty_session))).
        Some (hd row) = session_id (fst (run rs empty_session))"
  proof (cases rs)
    case Nil
    then show ?thesis by simp
  next
    case (Cons a rs')
    obtain env' req' where a: "a = (env', req')" by (cases a)
    obtain s' t x where c: "chat env' req' empty_session = (s', t, x)"
      by (cases "chat env' req' empty_session")
    from chat_step [OF e, of env' req'] c
    have s': "history s' \<noteq> None" "session_id s' = Some (uuid4 env')"
      and t: "\<forall>row\<in>set (audit_rows t). hd row = uuid4 env'"
      by (auto simp: empty_session_def)
    from run_keeps_session_id [OF s', of rs'] Cons a c t show ?thesis
      by (auto simp: audit_rows_append split: prod.splits)
  qed
  from first stable rows reachable_invariant [of s] show ?thesis
    by (simp add: empty_session_def)
qed

theorem session_id_is_stable_witness:
  "reachable (fst (chat demo_services demo_get empty_session))
   \<and> session_id (fst (chat demo_services demo_get empty_session))
       = Some ''6fa459ea-ee8a-4ca4-894e-db77e160355e''
   \<and> session_id (fst (chat (demo_services\<lparr>uuid4 := ''00000000-0000-4000-8000-000000000000''\<rparr>)
                         demo_post (fst (chat demo_services demo_get empty_session))))
       = Some ''6fa459ea-ee8a-4ca4-894e-db77e160355e''
   \<and> audit_rows (snd (run
            [(demo_services\<lparr>uuid4 := ''00000000-0000-4000-8000-000000000000''\<rparr>, demo_post),
             (demo_services\<lparr>uuid4 := ''11111111-1111-4111-8111-111111111111''\<rparr>, demo_post)]
            (fst (chat demo_services demo_get empty_session))))
       = [[''6fa459ea-ee8a-4ca4-894e-db77e160355e'', ''2024-05-01T12:00:00'',
           ''What is the lockout procedure?'', ''Lock all valves, then notify the supervisor.''],
          [''6fa459ea-ee8a-4ca4-894e-db77e160355e'', ''2024-05-01T12:00:00'',
           ''What is the lockout procedure?'', ''Lock all valves, then notify the supervisor.'']]"
proof -
  let ?s = "fst (chat demo_services demo_get empty_session)"
  let ?sid = "''6fa459ea-ee8a-4ca4-894e-db77e160355e''"
  let ?e1 = "demo_services\<lparr>uuid4 := ''00000000-0000-4000-8000-000000000000''\<rparr>"
  let ?e2 = "demo_services\<lparr>uuid4 := ''11111111-1111-4111-8111-111111111111''\<rparr>"
  let ?s' = "fst (chat ?e1 demo_post ?s)"
  have r: "reachable ?s"
    by (rule reachable_chat [OF reachable_empty])
  have sid: "session_id ?s = Some ?sid"
    using session_id_is_stable [where env = demo_services and req = demo_get and rs = "[]"
        and s = empty_session and sid = "[]"]
    by (simp add: demo_services_def)
  have h: "history ?s \<noteq> None"
    using session_id_is_stable [where env = demo_services and req = demo_get and rs = "[]"
        and s = empty_session and sid = "[]"]
    by simp
  from sid have ok: "history ?s = None \<or> session_id ?s = Some ?sid"
    by simp
  note stable = session_id_is_stable [where s = ?s and sid = ?sid and env = ?e1
      and req = demo_post, THEN conjunct2, THEN conjunct2, THEN conjunct2, THEN conjunct1,
      rule_format, OF r sid]
  from stable have sid': "session_id ?s' = Some ?sid"
    by simp
  have "reachable ?s'"
    by (rule reachable_chat [OF r])
  with session_id_is_stable [where s = ?s', THEN conjunct1] sid'
  have h': "history ?s' \<noteq> None"
    by simp
  from sid' have ok': "history ?s' = None \<or> session_id ?s' = Some ?sid"
    by simp
  have rows: "audit_rows (snd (run [(?e1, demo_post), (?e2, demo_post)] ?s))
       = [[?sid, ''2024-05-01T12:00:00'',
           ''What is the lockout procedure?'', ''Lock all valves, then notify the supervisor.''],
          [?sid, ''2024-05-01T12:00:00'',
           ''What is the lockout procedure?'', ''Lock all valves, then notify the supervisor.'']]"
    using h h'
    by (simp only: audit_rows_run_Cons demo_post_rows [OF ok] demo_post_rows [OF ok'])
      (simp add: demo_question_def)
  from r sid sid' rows show ?thesis by blast
qed

end
